theory Spec2Isabelle
  imports Main "HOL-Library.Word"
begin

section \<open>Python values used by \<open>core/process.py\<close>\<close>

text \<open>
  A Python \<open>str\<close> is a sequence of Unicode code points, a \<open>bytes\<close> object a sequence
  of octets. A literal of the source is written \<open>str ''...''\<close>.
\<close>

type_synonym str = "nat list"
type_synonym bytes = "8 word list"

definition str :: "string \<Rightarrow> str" where
  "str s = map of_char s"

text \<open>The exception classes that the calls made by the source can raise.\<close>

datatype exc =
    FileNotFoundError
  | PermissionError
  | NotADirectoryError
  | BrokenPipeError
  | ConnectionResetError
  | UnicodeEncodeError
  | UnicodeDecodeError
  | ValueError

subsection \<open>\<open>str.encode()\<close>: strict UTF-8\<close>

definition is_surrogate :: "nat \<Rightarrow> bool" where
  "is_surrogate c \<longleftrightarrow> 0xD800 \<le> c \<and> c \<le> 0xDFFF"

definition encode_cp :: "nat \<Rightarrow> exc + bytes" where
  "encode_cp c =
     (if c < 0x80 then Inr [of_nat c]
      else if c < 0x800 then Inr [of_nat (0xC0 + c div 64), of_nat (0x80 + c mod 64)]
      else if is_surrogate c then Inl UnicodeEncodeError
      else if c < 0x10000 then
        Inr [of_nat (0xE0 + c div 4096), of_nat (0x80 + c div 64 mod 64),
             of_nat (0x80 + c mod 64)]
      else
        Inr [of_nat (0xF0 + c div 262144), of_nat (0x80 + c div 4096 mod 64),
             of_nat (0x80 + c div 64 mod 64), of_nat (0x80 + c mod 64)])"

fun str_encode :: "str \<Rightarrow> exc + bytes" where
  "str_encode [] = Inr []"
| "str_encode (c # cs) =
     (case encode_cp c of
        Inl e \<Rightarrow> Inl e
      | Inr bs \<Rightarrow> (case str_encode cs of Inl e \<Rightarrow> Inl e | Inr rest \<Rightarrow> Inr (bs @ rest)))"

subsection \<open>\<open>bytes.decode('utf-8')\<close>: strict UTF-8\<close>

text \<open>
  The lead byte fixes the number of continuation bytes, its own payload bits and the
  range allowed for the first continuation byte (which excludes overlong forms,
  surrogates and code points above \<open>0x10FFFF\<close>); any other byte raises.
\<close>

definition is_cont :: "8 word \<Rightarrow> bool" where
  "is_cont b \<longleftrightarrow> 0x80 \<le> b \<and> b \<le> 0xBF"

definition lead :: "8 word \<Rightarrow> (nat \<times> nat \<times> 8 word \<times> 8 word) option" where
  "lead b =
     (if b < 0x80 then Some (0, unat b, 0x80, 0xBF)
      else if 0xC2 \<le> b \<and> b \<le> 0xDF then Some (1, unat b - 0xC0, 0x80, 0xBF)
      else if b = 0xE0 then Some (2, 0, 0xA0, 0xBF)
      else if b = 0xED then Some (2, 0xD, 0x80, 0x9F)
      else if 0xE1 \<le> b \<and> b \<le> 0xEF then Some (2, unat b - 0xE0, 0x80, 0xBF)
      else if b = 0xF0 then Some (3, 0, 0x90, 0xBF)
      else if 0xF1 \<le> b \<and> b \<le> 0xF3 then Some (3, unat b - 0xF0, 0x80, 0xBF)
      else if b = 0xF4 then Some (3, 4, 0x80, 0x8F)
      else None)"

fun bytes_decode :: "bytes \<Rightarrow> exc + str" where
  "bytes_decode [] = Inr []"
| "bytes_decode (b # bs) =
     (case lead b of
        None \<Rightarrow> Inl UnicodeDecodeError
      | Some (n, hi, lo1, hi1) \<Rightarrow>
          (let cs = take n bs in
           if length cs < n \<or> \<not> list_all is_cont cs
              \<or> (cs \<noteq> [] \<and> \<not> (lo1 \<le> hd cs \<and> hd cs \<le> hi1))
           then Inl UnicodeDecodeError
           else (case bytes_decode (drop n bs) of
                   Inl x \<Rightarrow> Inl x
                 | Inr s \<Rightarrow> Inr (foldl (\<lambda>a c. a * 64 + (unat c - 0x80)) hi cs # s))))"

subsection \<open>\<open>str.strip()\<close>\<close>

text \<open>The code points for which \<open>str.isspace\<close> holds; \<open>strip\<close> removes them at both ends.\<close>

definition isspace :: "nat \<Rightarrow> bool" where
  "isspace c \<longleftrightarrow>
     (0x09 \<le> c \<and> c \<le> 0x0D) \<or> (0x1C \<le> c \<and> c \<le> 0x20) \<or> c = 0x85 \<or> c = 0xA0
     \<or> c = 0x1680 \<or> (0x2000 \<le> c \<and> c \<le> 0x200A) \<or> c = 0x2028 \<or> c = 0x2029
     \<or> c = 0x202F \<or> c = 0x205F \<or> c = 0x3000"

definition lstrip :: "str \<Rightarrow> str" where
  "lstrip s = dropWhile isspace s"

definition rstrip :: "str \<Rightarrow> str" where
  "rstrip s = rev (dropWhile isspace (rev s))"

definition strip :: "str \<Rightarrow> str" where
  "strip s = rstrip (lstrip s)"

section \<open>The asyncio objects the supervisor holds\<close>

text \<open>
  \<open>asyncio.subprocess.Process\<close>: the process id, the exit code once recorded, and the
  two stream objects, each of which exists only when the matching descriptor was
  opened as a pipe. A \<open>StreamReader\<close> carries its line limit.
\<close>

datatype StreamWriter = StreamWriter
datatype StreamReader = StreamReader (limit: nat)

record Process =
  pid :: nat
  returncode :: "int option"
  stdin :: "StreamWriter option"
  stdout :: "StreamReader option"

text \<open>
  \<open>pathlib.Path(p)\<close> on a POSIX system: the object keeps the root (one slash, or two
  when the text starts with exactly two) and the components between slashes that are
  neither empty nor a single dot; its text is the root followed by the components
  joined by slashes, or a single dot when there is nothing at all. \<open>PosixPath\<close> holds
  that text.
\<close>

datatype path = PosixPath str

definition splitroot :: "str \<Rightarrow> str \<times> str" where
  "splitroot p =
     (if take 1 p \<noteq> [47] then ([], p)
      else if take 1 (drop 1 p) \<noteq> [47] \<or> take 1 (drop 2 p) = [47] then ([47], drop 1 p)
      else (take 2 p, drop 2 p))"

fun split_sep :: "str \<Rightarrow> str \<Rightarrow> str list" where
  "split_sep acc [] = [acc]"
| "split_sep acc (c # cs) = (if c = 47 then acc # split_sep [] cs else split_sep (acc @ [c]) cs)"

fun join_sep :: "str list \<Rightarrow> str" where
  "join_sep [] = []"
| "join_sep [x] = x"
| "join_sep (x # y # ys) = x @ [47] @ join_sep (y # ys)"

definition Path :: "str \<Rightarrow> path" where
  "Path p =
     (case splitroot p of
        (root, rel) \<Rightarrow>
          (let parts = filter (\<lambda>x. x \<noteq> [] \<and> x \<noteq> [46]) (split_sep [] rel);
               s = root @ join_sep parts
           in PosixPath (if s = [] then [46] else s)))"

datatype redirect = PIPE | STDOUT

text \<open>
  The calls a method makes on the event loop and on the process object, in the order
  it makes them, with their arguments.
\<close>

datatype call =
    Exec "str list" path "redirect option" "redirect option" "redirect option"
  | Write nat bytes
  | Drain nat
  | WaitFor nat nat
  | Kill nat

text \<open>
  What the world outside the supervisor answers during one method call: whether
  process creation raises or gives a process id; whether \<open>stdin.write\<close> raises;
  whether \<open>stdin.drain\<close> returns, raises, or stays suspended for ever (it is awaited
  without a timeout, and does not return while the child leaves a full pipe unread);
  how the bounded wait ends; the bytes that the child writes to its output before
  closing it; and which paths name an existing file. Process creation finds the
  program and enters the directory, which is what \<open>exec_result\<close> records; the other
  arguments of the command line are not looked up by anything but the child itself.
\<close>

datatype wait_outcome = Exited int | TimedOut

datatype drain_outcome = Drained | DrainRaises exc | DrainBlocks

record env =
  exec_result :: "exc + nat"
  write_raises :: "exc option"
  drain_result :: drain_outcome
  wait_result :: wait_outcome
  child_output :: bytes
  path_exists :: "str \<Rightarrow> bool"

definition DEFAULT_LIMIT :: nat where
  "DEFAULT_LIMIT = 2 ^ 16"

definition create_subprocess_exec ::
  "env \<Rightarrow> str list \<Rightarrow> path \<Rightarrow> redirect option \<Rightarrow> redirect option \<Rightarrow> redirect option
     \<Rightarrow> exc + Process" where
  "create_subprocess_exec e cmd cwd sin sout serr =
     (case exec_result e of
        Inl x \<Rightarrow> Inl x
      | Inr n \<Rightarrow>
          Inr \<lparr>pid = n, returncode = None,
               stdin = (if sin = Some PIPE then Some StreamWriter else None),
               stdout = (if sout = Some PIPE then Some (StreamReader DEFAULT_LIMIT) else None)\<rparr>)"

section \<open>\<open>ServerProcess\<close>\<close>

record ServerProcess =
  jar_path :: str
  working_dir :: path
  min_mem :: str
  max_mem :: str
  process :: "Process option"

definition init :: "str \<Rightarrow> str \<Rightarrow> str \<Rightarrow> str \<Rightarrow> ServerProcess" where
  "init jar wd mn mx =
     \<lparr>jar_path = jar, working_dir = Path wd, min_mem = mn, max_mem = mx, process = None\<rparr>"

text \<open>
  Every method takes the supervisor object and returns its result (\<open>Inl\<close> an exception
  that leaves the method), the supervisor object afterwards, and the calls it made.
  \<open>write_command\<close> and \<open>stop\<close> await a drain that may never return: their value is
  \<open>None\<close> when the call never returns, and \<open>Some\<close> of the outcome otherwise.
\<close>

type_synonym 'a outcome = "(exc + 'a) \<times> ServerProcess \<times> call list"

definition is_running :: "ServerProcess \<Rightarrow> bool \<times> ServerProcess" where
  "is_running self =
     ((case process self of None \<Rightarrow> False | Some p \<Rightarrow> returncode p = None), self)"

definition start :: "env \<Rightarrow> ServerProcess \<Rightarrow> bool outcome" where
  "start e self =
     (case is_running self of
        (running, self1) \<Rightarrow>
          if running then (Inr False, self1, [])
          else
          (let cmd = [str ''java'', str ''-Xms'' @ min_mem self1, str ''-Xmx'' @ max_mem self1,
                      str ''-jar'', jar_path self1, str ''nogui''];
               calls = [Exec cmd (working_dir self1) (Some PIPE) (Some PIPE) (Some STDOUT)]
           in case create_subprocess_exec e cmd (working_dir self1)
                     (Some PIPE) (Some PIPE) (Some STDOUT) of
                Inr p \<Rightarrow> (Inr True, self1\<lparr>process := Some p\<rparr>, calls)
              | Inl x \<Rightarrow>
                  if x = FileNotFoundError then (Inr False, self1, calls)
                  else (Inl x, self1, calls)))"

definition write_command :: "env \<Rightarrow> str \<Rightarrow> ServerProcess \<Rightarrow> unit outcome option" where
  "write_command e command self =
     (case process self of
        None \<Rightarrow> Some (Inr (), self, [])
      | Some p \<Rightarrow>
          (case stdin p of
             None \<Rightarrow> Some (Inr (), self, [])
           | Some w \<Rightarrow>
               (let except = (\<lambda>x calls.
                      if x = BrokenPipeError then (Inr (), self, calls) else (Inl x, self, calls))
                in case str_encode (command @ str ''\<newline>'') of
                     Inl x \<Rightarrow> Some (except x [])
                   | Inr data \<Rightarrow>
                       (case write_raises e of
                          Some x \<Rightarrow> Some (except x [Write (pid p) data])
                        | None \<Rightarrow>
                            (case drain_result e of
                               DrainRaises x \<Rightarrow>
                                 Some (except x [Write (pid p) data, Drain (pid p)])
                             | DrainBlocks \<Rightarrow> None
                             | Drained \<Rightarrow>
                                 Some (Inr (), self, [Write (pid p) data, Drain (pid p)]))))))"

definition stop :: "env \<Rightarrow> ServerProcess \<Rightarrow> unit outcome option" where
  "stop e self =
     (case process self of
        None \<Rightarrow> Some (Inr (), self, [])
      | Some p \<Rightarrow>
          if returncode p \<noteq> None then Some (Inr (), self\<lparr>process := None\<rparr>, [])
          else
            (case write_command e (str ''stop'') self of
               None \<Rightarrow> None
             | Some (Inl x, self1, calls) \<Rightarrow> Some (Inl x, self1, calls)
             | Some (Inr _, self1, calls) \<Rightarrow>
                 (case wait_result e of
                    Exited c \<Rightarrow>
                      Some (Inr (), self1\<lparr>process := None\<rparr>, calls @ [WaitFor (pid p) 30])
                  | TimedOut \<Rightarrow>
                      Some (Inr (), self1\<lparr>process := None\<rparr>,
                            calls @ [WaitFor (pid p) 30, Kill (pid p)]))))"

subsection \<open>\<open>stream_logs\<close>\<close>

text \<open>
  \<open>StreamReader.readline\<close> on the bytes still to come before end of stream: the line
  up to and including the first newline, or what is left when there is none (empty
  at end of stream); a line whose part before the newline is longer than the limit
  raises \<open>ValueError\<close>. The second component is what remains to be read.
\<close>

definition readline :: "nat \<Rightarrow> bytes \<Rightarrow> (exc + bytes) \<times> bytes" where
  "readline lim buf =
     (let isep = length (takeWhile (\<lambda>b. b \<noteq> 10) buf) in
      if isep < length buf then
        (if isep > lim then (Inl ValueError, drop (isep + 1) buf)
         else (Inr (take (isep + 1) buf), drop (isep + 1) buf))
      else if length buf > lim then (Inl ValueError, [])
      else (Inr buf, []))"

text \<open>
  The \<open>async for\<close> loop: the elements yielded, and how the generator ends
  (\<open>None\<close>: the iteration is exhausted; \<open>Some x\<close>: the exception \<open>x\<close> leaves it).
\<close>

function stream_lines :: "nat \<Rightarrow> bytes \<Rightarrow> str list \<times> exc option" where
  "stream_lines lim buf =
     (case readline lim buf of
        (Inl x, rest) \<Rightarrow> ([], Some x)
      | (Inr line, rest) \<Rightarrow>
          if line = [] then ([], None)
          else (case bytes_decode line of
                  Inl x \<Rightarrow> ([], Some x)
                | Inr s \<Rightarrow> (case stream_lines lim rest of (ys, r) \<Rightarrow> (strip s # ys, r))))"
  by pat_completeness auto
termination
proof (relation "measure (\<lambda>(lim, buf). length buf)")
  show "wf (measure (\<lambda>(lim, buf). length buf))" by simp
next
  fix lim buf x1 rest line s
  assume "(x1, rest) = readline lim buf" "x1 = Inr line" "line \<noteq> []"
  then have "length rest < length buf"
    unfolding readline_def Let_def by (auto split: if_splits)
  then show "((lim, rest), lim, buf) \<in> measure (\<lambda>(lim, buf). length buf)"
    by simp
qed

definition stream_logs :: "env \<Rightarrow> ServerProcess \<Rightarrow> (str list \<times> exc option) \<times> ServerProcess" where
  "stream_logs e self =
     (case process self of
        None \<Rightarrow> (([], None), self)
      | Some p \<Rightarrow>
          (case stdout p of
             None \<Rightarrow> (([], None), self)
           | Some r \<Rightarrow> (stream_lines (limit r) (child_output e), self)))"

section \<open>The byte stream as a sequence of lines\<close>

text \<open>
  The lines of a byte stream, each with its newline, and a last one without when the
  stream does not end in a newline. This is the reading of the stream that the
  description of the log sequence refers to; it is defined on its own, by one pass
  over the bytes.
\<close>

fun lines_from :: "bytes \<Rightarrow> bytes \<Rightarrow> bytes list" where
  "lines_from acc [] = (if acc = [] then [] else [acc])"
| "lines_from acc (b # bs) =
     (if b = 10 then (acc @ [b]) # lines_from [] bs else lines_from (acc @ [b]) bs)"

definition split_lines :: "bytes \<Rightarrow> bytes list" where
  "split_lines bs = lines_from [] bs"

text \<open>
  A line is readable when the part before its newline is within the reader's limit
  and it is well-formed UTF-8. A line that is not readable raises \<open>ValueError\<close> when
  it is over the limit and \<open>UnicodeDecodeError\<close> otherwise.
\<close>

definition readable :: "nat \<Rightarrow> bytes \<Rightarrow> bool" where
  "readable lim l \<longleftrightarrow>
     length (takeWhile (\<lambda>b. b \<noteq> 10) l) \<le> lim
     \<and> (case bytes_decode l of Inr s \<Rightarrow> True | Inl x \<Rightarrow> False)"

definition line_error :: "nat \<Rightarrow> bytes \<Rightarrow> exc" where
  "line_error lim l =
     (if lim < length (takeWhile (\<lambda>b. b \<noteq> 10) l) then ValueError else UnicodeDecodeError)"

section \<open>Example supervisors and environments\<close>

text \<open>
  A supervisor that was never started, one holding a live child with process id 7, one
  holding a child that has exited with code 0, and an environment in which every
  call succeeds, the child exits within the timeout and writes nothing, and the
  jar \<open>server.jar\<close> and the directory \<open>srv\<close> exist.
\<close>

definition fresh :: ServerProcess where
  "fresh = init (str ''server.jar'') (str ''srv'') (str ''2G'') (str ''4G'')"

definition handle7 :: Process where
  "handle7 = \<lparr>pid = 7, returncode = None, stdin = Some StreamWriter,
               stdout = Some (StreamReader DEFAULT_LIMIT)\<rparr>"

definition running_sp :: ServerProcess where
  "running_sp = fresh\<lparr>process := Some handle7\<rparr>"

definition exited_sp :: ServerProcess where
  "exited_sp = fresh\<lparr>process := Some (handle7\<lparr>returncode := Some 0\<rparr>)\<rparr>"

definition quiet :: env where
  "quiet = \<lparr>exec_result = Inr 7, write_raises = None, drain_result = Drained,
             wait_result = Exited 0, child_output = [],
             path_exists = (\<lambda>p. p = str ''server.jar'' \<or> p = str ''srv'')\<rparr>"

lemmas examples = fresh_def handle7_def running_sp_def exited_sp_def quiet_def init_def

section \<open>Encoding of console commands\<close>

lemma str_encode_append:
  "str_encode (xs @ ys) =
     (case str_encode xs of
        Inl x \<Rightarrow> Inl x
      | Inr a \<Rightarrow> (case str_encode ys of Inl x \<Rightarrow> Inl x | Inr b \<Rightarrow> Inr (a @ b)))"
  by (induction xs) (auto split: sum.splits)

lemma str_encode_newline:
  "str_encode xs = Inr a \<Longrightarrow> str_encode (xs @ str ''\<newline>'') = Inr (a @ [10])"
  by (simp add: str_encode_append str_def encode_cp_def)

lemma str_encode_stop:
  "str_encode (str ''stop'' @ str ''\<newline>'') = Inr [115, 116, 111, 112, 10]"
  by (simp add: str_def encode_cp_def)

lemma str_encode_say_hello:
  "str_encode (str ''say hello'') = Inr [115, 97, 121, 32, 104, 101, 108, 108, 111]"
  by (simp add: str_def encode_cp_def)

lemma encode_has_newline:
  "str_encode cs = Inr bs \<Longrightarrow> 10 \<in> set cs \<Longrightarrow> 10 \<in> set bs"
proof (induction cs arbitrary: bs)
  case Nil
  then show ?case by simp
next
  case (Cons c cs)
  then show ?case
    by (auto simp: encode_cp_def split: sum.splits if_splits)
qed

section \<open>Properties of the running query and of \<open>start\<close>\<close>

text \<open>
  C2. \<open>is_running\<close> answers true exactly when a handle is present and that process has
  no exit code recorded; evaluating it leaves every field of the supervisor as it
  was, also on a freshly constructed supervisor that was never started, where the
  answer is false.
\<close>

theorem is_running_iff:
  "is_running self = ((\<exists>p. process self = Some p \<and> returncode p = None), self)
   \<and> is_running (init jar wd mn mx) = (False, init jar wd mn mx)"
  by (simp add: is_running_def init_def split: option.splits)

text \<open>
  C4. While \<open>is_running\<close> is true, \<open>start\<close> returns False, makes no call at all (no
  process is created) and returns the supervisor unchanged, so the handle is the one
  that was there.
\<close>

theorem start_while_running:
  "fst (is_running self) \<Longrightarrow> start e self = (Inr False, self, [])"
  by (auto simp: start_def is_running_def split: option.splits)

theorem start_while_running_witness:
  "fst (is_running running_sp)
   \<and> start (quiet\<lparr>exec_result := Inr 8\<rparr>) running_sp = (Inr False, running_sp, [])
   \<and> process running_sp = Some handle7"
proof -
  have live: "fst (is_running running_sp)"
    by (simp add: is_running_def examples)
  from live start_while_running [OF live] show ?thesis
    by (simp add: running_sp_def)
qed

text \<open>
  C9. Whenever \<open>start\<close> returns True it has made exactly one call, the creation of a
  process with the argument list \<open>java\<close>, \<open>-Xms\<close> followed by \<open>min_mem\<close>, \<open>-Xmx\<close>
  followed by \<open>max_mem\<close>, \<open>-jar\<close>, the jar path, \<open>nogui\<close>, in the configured working
  directory, with standard input and standard output as pipes and standard error
  sent to standard output; the handle it stores has both pipe objects and no exit
  code.
\<close>

theorem start_launch:
  assumes "start e self = (Inr True, self', calls)"
  shows "calls = [Exec [str ''java'', str ''-Xms'' @ min_mem self, str ''-Xmx'' @ max_mem self,
                        str ''-jar'', jar_path self, str ''nogui'']
                    (working_dir self) (Some PIPE) (Some PIPE) (Some STDOUT)]
         \<and> (\<exists>n. exec_result e = Inr n
               \<and> self' = self\<lparr>process := Some \<lparr>pid = n, returncode = None,
                     stdin = Some StreamWriter, stdout = Some (StreamReader DEFAULT_LIMIT)\<rparr>\<rparr>)"
  using assms
  by (auto simp: start_def is_running_def create_subprocess_exec_def Let_def
           split: option.splits sum.splits if_splits)

theorem start_launch_witness:
  "start quiet fresh = (Inr True, running_sp,
      [Exec [str ''java'', str ''-Xms2G'', str ''-Xmx4G'', str ''-jar'', str ''server.jar'',
             str ''nogui'']
         (Path (str ''srv'')) (Some PIPE) (Some PIPE) (Some STDOUT)])"
proof -
  have go: "start quiet fresh = (Inr True, running_sp,
      [Exec [str ''java'', str ''-Xms2G'', str ''-Xmx4G'', str ''-jar'', str ''server.jar'',
             str ''nogui'']
         (Path (str ''srv'')) (Some PIPE) (Some PIPE) (Some STDOUT)])"
    by (simp add: start_def is_running_def create_subprocess_exec_def examples str_def)
  from start_launch [OF go] go show ?thesis by simp
qed

text \<open>
  C3, as the code has it. When process creation raises \<open>FileNotFoundError\<close> (the
  runtime cannot be located), \<open>start\<close> returns False, no exception leaves it and the
  supervisor is returned unchanged: no new handle is stored, the handle field is as
  it was, and a supervisor that was not running is not running afterwards.
\<close>

theorem start_not_found:
  assumes "exec_result e = Inl FileNotFoundError"
  shows "fst (start e self) = Inr False
         \<and> fst (snd (start e self)) = self
         \<and> (\<not> fst (is_running self) \<longrightarrow> \<not> fst (is_running (fst (snd (start e self)))))"
  using assms
  by (auto simp: start_def is_running_def create_subprocess_exec_def Let_def
           split: option.splits)

theorem start_not_found_witness:
  "exec_result (quiet\<lparr>exec_result := Inl FileNotFoundError\<rparr>) = Inl FileNotFoundError
   \<and> \<not> fst (is_running fresh)
   \<and> fst (start (quiet\<lparr>exec_result := Inl FileNotFoundError\<rparr>) fresh) = Inr False
   \<and> fst (snd (start (quiet\<lparr>exec_result := Inl FileNotFoundError\<rparr>) fresh)) = fresh
   \<and> process fresh = None"
proof -
  have nf: "exec_result (quiet\<lparr>exec_result := Inl FileNotFoundError\<rparr>) = Inl FileNotFoundError"
    by simp
  have idle: "\<not> fst (is_running fresh)"
    by (simp add: is_running_def examples)
  from nf idle start_not_found [OF nf, of fresh] show ?thesis
    by (simp add: examples)
qed

text \<open>
  C3, as stated, fails in three ways. A runtime that is found but may not be
  executed raises \<open>PermissionError\<close>, which leaves \<open>start\<close>: the result is not False.
  A jar path that names no existing file does not make the launch fail: the runtime
  is found, \<open>start\<close> returns True and the supervisor is running afterwards. And when a
  launch fails on a supervisor that still holds the handle of an exited child,
  \<open>start\<close> returns False but that handle is retained.
\<close>

theorem start_failure_counterexample:
  "fst (start (quiet\<lparr>exec_result := Inl PermissionError\<rparr>) fresh) = Inl PermissionError
   \<and> fst (start (quiet\<lparr>exec_result := Inl PermissionError\<rparr>) fresh) \<noteq> Inr False
   \<and> \<not> path_exists quiet (jar_path (fresh\<lparr>jar_path := str ''missing.jar''\<rparr>))
   \<and> fst (start quiet (fresh\<lparr>jar_path := str ''missing.jar''\<rparr>)) = Inr True
   \<and> fst (is_running (fst (snd (start quiet (fresh\<lparr>jar_path := str ''missing.jar''\<rparr>)))))
   \<and> fst (start (quiet\<lparr>exec_result := Inl FileNotFoundError\<rparr>) exited_sp) = Inr False
   \<and> process (fst (snd (start (quiet\<lparr>exec_result := Inl FileNotFoundError\<rparr>) exited_sp)))
       = Some (handle7\<lparr>returncode := Some 0\<rparr>)"
  by (simp add: start_def is_running_def create_subprocess_exec_def examples str_def)

section \<open>Properties of \<open>write_command\<close>\<close>

lemma write_command_no_pipe:
  "process self = None \<or> (\<exists>p. process self = Some p \<and> stdin p = None) \<Longrightarrow>
   write_command e command self = Some (Inr (), self, [])"
  by (auto simp: write_command_def)

lemma write_command_pipe:
  assumes "process self = Some p" "stdin p = Some w" "str_encode command = Inr bs"
  shows "write_command e command self =
     (case write_raises e of
        Some x \<Rightarrow>
          Some (if x = BrokenPipeError then Inr () else Inl x, self, [Write (pid p) (bs @ [10])])
      | None \<Rightarrow>
          (case drain_result e of
             DrainRaises x \<Rightarrow>
               Some (if x = BrokenPipeError then Inr () else Inl x, self,
                     [Write (pid p) (bs @ [10]), Drain (pid p)])
           | DrainBlocks \<Rightarrow> None
           | Drained \<Rightarrow> Some (Inr (), self, [Write (pid p) (bs @ [10]), Drain (pid p)])))"
  using assms
  by (auto simp: write_command_def str_encode_newline split: option.splits drain_outcome.splits)

text \<open>
  What \<open>write_command\<close> does when nothing but \<open>BrokenPipeError\<close> is raised: without a
  handle or an input pipe it makes no call; otherwise it writes the encoded command
  followed by the newline byte and drains, and a \<open>BrokenPipeError\<close> from either call
  is swallowed.
\<close>

lemma write_command_bytes:
  "(process self = None \<or> (\<exists>p. process self = Some p \<and> stdin p = None) \<longrightarrow>
      write_command e command self = Some (Inr (), self, []))
   \<and> (process self = Some p \<and> stdin p = Some w \<and> str_encode command = Inr bs \<longrightarrow>
        (write_raises e = None \<and> drain_result e = Drained \<longrightarrow>
           write_command e command self
             = Some (Inr (), self, [Write (pid p) (bs @ [10]), Drain (pid p)]))
      \<and> (write_raises e = Some BrokenPipeError \<longrightarrow>
           write_command e command self = Some (Inr (), self, [Write (pid p) (bs @ [10])]))
      \<and> (write_raises e = None \<and> drain_result e = DrainRaises BrokenPipeError \<longrightarrow>
           write_command e command self
             = Some (Inr (), self, [Write (pid p) (bs @ [10]), Drain (pid p)])))"
  using write_command_no_pipe [of self e command] write_command_pipe [of self p w command bs e]
  by auto

text \<open>
  C6 at a failing input. The child has closed its end of the input pipe, so that the
  drain after the write of \<open>say hello\<close> raises \<open>ConnectionResetError\<close>. The handler of
  \<open>write_command\<close> names \<open>BrokenPipeError\<close> only: the failure of the write to a
  broken pipe is not swallowed, it leaves \<open>write_command\<close>.
\<close>

theorem write_command_lost_pipe_escapes:
  "write_command (quiet\<lparr>drain_result := DrainRaises ConnectionResetError\<rparr>)
       (str ''say hello'') running_sp
     = Some (Inl ConnectionResetError, running_sp,
             [Write 7 [115, 97, 121, 32, 104, 101, 108, 108, 111, 10], Drain 7])"
  by (simp add: write_command_def str_encode_append str_encode_say_hello str_def
        encode_cp_def examples)

section \<open>Properties of \<open>stop\<close>\<close>

lemma write_command_stop:
  assumes "process self = Some p" "stdin p = Some w"
    and "write_raises e = None \<or> write_raises e = Some BrokenPipeError"
    and "drain_result e = Drained \<or> drain_result e = DrainRaises BrokenPipeError"
  shows "write_command e (str ''stop'') self =
           Some (Inr (), self,
            Write (pid p) [115, 116, 111, 112, 10]
              # (if write_raises e = None then [Drain (pid p)] else []))"
  using assms by (auto simp: write_command_def str_encode_stop)

text \<open>
  The shutdown protocol when the write and the drain succeed or raise
  \<open>BrokenPipeError\<close>: \<open>stop\<close> writes the bytes of \<open>stop\<close> and a newline, drains when the
  write was accepted, waits for the exit with a timeout of 30 seconds, kills when
  the wait times out, and clears the handle.
\<close>

lemma stop_running:
  assumes "process self = Some p" "returncode p = None" "stdin p = Some w"
    and "write_raises e = None \<or> write_raises e = Some BrokenPipeError"
    and "drain_result e = Drained \<or> drain_result e = DrainRaises BrokenPipeError"
  shows "stop e self =
           Some (Inr (), self\<lparr>process := None\<rparr>,
            [Write (pid p) [115, 116, 111, 112, 10]]
              @ (if write_raises e = None then [Drain (pid p)] else [])
              @ [WaitFor (pid p) 30]
              @ (case wait_result e of Exited c \<Rightarrow> [] | TimedOut \<Rightarrow> [Kill (pid p)]))"
  using assms write_command_stop [OF assms(1) assms(3) assms(4) assms(5)]
  by (simp add: stop_def split: wait_outcome.splits)

text \<open>
  C1 at a failing input. The child is alive and would not exit within the timeout,
  and its input pipe is lost, so that draining the shutdown command raises
  \<open>ConnectionResetError\<close>. \<open>stop\<close> writes the command and drains, and there the
  exception leaves it: it does not wait for the exit, it does not kill, and the
  supervisor still holds the handle and is still running. When the drain stays
  suspended instead, \<open>stop\<close> never returns, so the wait of 30 seconds is never begun.
\<close>

theorem stop_lost_pipe_skips_wait:
  "stop (quiet\<lparr>drain_result := DrainRaises ConnectionResetError, wait_result := TimedOut\<rparr>)
       running_sp
     = Some (Inl ConnectionResetError, running_sp,
             [Write 7 [115, 116, 111, 112, 10], Drain 7])
   \<and> fst (is_running running_sp)
   \<and> stop (quiet\<lparr>drain_result := DrainBlocks\<rparr>) running_sp = None"
  by (simp add: stop_def write_command_def str_encode_stop is_running_def examples)

text \<open>
  C7. On a handle whose child has a recorded exit code, \<open>stop\<close> sets the handle to
  \<open>None\<close> and makes no call: nothing is written to the input pipe. Without a handle
  \<open>stop\<close> returns normally, makes no call and changes nothing.
\<close>

theorem stop_not_running:
  "(process self = Some p \<and> returncode p = Some c \<longrightarrow>
      stop e self = Some (Inr (), self\<lparr>process := None\<rparr>, []))
   \<and> (process self = None \<longrightarrow> stop e self = Some (Inr (), self, []))"
  by (simp add: stop_def)

theorem stop_not_running_witness:
  "stop quiet exited_sp = Some (Inr (), fresh, [])
   \<and> stop quiet fresh = Some (Inr (), fresh, [])"
  using stop_not_running [of exited_sp "handle7\<lparr>returncode := Some 0\<rparr>" 0 quiet]
    stop_not_running [of fresh handle7 0 quiet]
  by (simp add: examples)

text \<open>
  C8 at a failing input. The child is alive but its input pipe is lost, so that
  draining the shutdown command raises \<open>ConnectionResetError\<close>. \<open>write_command\<close>
  handles \<open>BrokenPipeError\<close> only: the exception leaves \<open>stop\<close>, no wait and no kill
  are made, and the handle is still in place.
\<close>

theorem stop_raises_connection_reset:
  "stop (quiet\<lparr>drain_result := DrainRaises ConnectionResetError\<rparr>) running_sp =
     Some (Inl ConnectionResetError, running_sp, [Write 7 [115, 116, 111, 112, 10], Drain 7])
   \<and> process running_sp = Some handle7"
  by (simp add: stop_def write_command_def str_encode_stop examples)

section \<open>Commands with embedded newlines\<close>

lemma lines_from_append_nl: "lines_from acc (xs @ [10]) \<noteq> []"
  by (induction xs arbitrary: acc) auto

lemma lines_from_two:
  "10 \<in> set xs \<Longrightarrow> 2 \<le> length (lines_from acc (xs @ [10]))"
proof (induction xs arbitrary: acc)
  case Nil
  then show ?case by simp
next
  case (Cons x xs)
  show ?case
  proof (cases "x = 10")
    case True
    have "lines_from [] (xs @ [10]) \<noteq> []" by (rule lines_from_append_nl)
    then have "1 \<le> length (lines_from [] (xs @ [10]))"
      by (cases "lines_from [] (xs @ [10])") auto
    with True show ?thesis by simp
  next
    case False
    with Cons show ?thesis by simp
  qed
qed

text \<open>
  C10. \<open>write_command\<close> neither validates nor escapes its argument: for a command
  with an embedded newline whose UTF-8 encoding is \<open>bs\<close>, the bytes written are
  exactly \<open>bs\<close> followed by one newline byte, so the child receives at least two
  newline-terminated lines from the one call. For the command \<open>say hi\<close>, newline,
  \<open>stop\<close> these lines are \<open>say hi\<close> and \<open>stop\<close>, the second being the bytes that \<open>stop\<close>
  itself sends.
\<close>

theorem write_command_unescaped:
  assumes "process self = Some p" "stdin p = Some w"
    and "write_raises e = None" "drain_result e = Drained"
    and "str_encode command = Inr bs" and "10 \<in> set command"
  shows "write_command e command self
           = Some (Inr (), self, [Write (pid p) (bs @ [10]), Drain (pid p)])
         \<and> 2 \<le> length (split_lines (bs @ [10]))
         \<and> (command = str ''say hi\<newline>stop'' \<longrightarrow>
              split_lines (bs @ [10]) = [[115, 97, 121, 32, 104, 105, 10], [115, 116, 111, 112, 10]])"
proof -
  have a: "write_command e command self
             = Some (Inr (), self, [Write (pid p) (bs @ [10]), Drain (pid p)])"
    using assms write_command_pipe [of self p w command bs e] by simp
  have b: "2 \<le> length (split_lines (bs @ [10]))"
    unfolding split_lines_def using assms encode_has_newline lines_from_two by blast
  have c: "split_lines (bs @ [10]) = [[115, 97, 121, 32, 104, 105, 10], [115, 116, 111, 112, 10]]"
    if "command = str ''say hi\<newline>stop''"
  proof -
    from that assms(5) have "bs = [115, 97, 121, 32, 104, 105, 10, 115, 116, 111, 112]"
      by (simp add: str_def encode_cp_def)
    then show ?thesis by (simp add: split_lines_def)
  qed
  from a b c show ?thesis by blast
qed

theorem write_command_unescaped_witness:
  "write_command quiet (str ''say hi\<newline>stop'') running_sp =
     Some (Inr (), running_sp,
      [Write 7 [115, 97, 121, 32, 104, 105, 10, 115, 116, 111, 112, 10], Drain 7])
   \<and> split_lines [115, 97, 121, 32, 104, 105, 10, 115, 116, 111, 112, 10]
       = [[115, 97, 121, 32, 104, 105, 10], [115, 116, 111, 112, 10]]"
  using write_command_unescaped [of running_sp handle7 StreamWriter quiet "str ''say hi\<newline>stop''"
      "[115, 97, 121, 32, 104, 105, 10, 115, 116, 111, 112]"]
  by (simp add: examples str_def encode_cp_def)

section \<open>Properties of \<open>stream_logs\<close>\<close>

declare stream_lines.simps [simp del]

lemma lines_from_sep:
  "length (takeWhile (\<lambda>b. b \<noteq> 10) bs) < length bs \<Longrightarrow>
   lines_from acc bs =
     (acc @ take (length (takeWhile (\<lambda>b. b \<noteq> 10) bs) + 1) bs)
       # lines_from [] (drop (length (takeWhile (\<lambda>b. b \<noteq> 10) bs) + 1) bs)"
  by (induction bs arbitrary: acc) auto

lemma lines_from_nosep:
  "\<not> length (takeWhile (\<lambda>b. b \<noteq> 10) bs) < length bs \<Longrightarrow>
   lines_from acc bs = (if acc @ bs = [] then [] else [acc @ bs])"
  by (induction bs arbitrary: acc) (auto split: if_splits)

lemma split_lines_empty: "split_lines buf = [] \<longleftrightarrow> buf = []"
proof (cases "length (takeWhile (\<lambda>b. b \<noteq> 10) buf) < length buf")
  case True
  then show ?thesis
    by (auto simp: split_lines_def lines_from_sep [where acc = "[]"])
next
  case False
  then show ?thesis
    by (simp add: split_lines_def lines_from_nosep [where acc = "[]"])
qed

lemma concat_lines_from: "concat (lines_from acc bs) = acc @ bs"
  by (induction bs arbitrary: acc) auto

lemma takeWhile_take_Suc:
  "takeWhile P (take (Suc (length (takeWhile P xs))) xs) = takeWhile P xs"
  by (induction xs) auto

lemma bytes_decode_error: "bytes_decode l = Inl x \<Longrightarrow> x = UnicodeDecodeError"
proof (induction l arbitrary: x rule: bytes_decode.induct)
  case 1
  then show ?case by simp
next
  case (2 b bs)
  then show ?case
    by (auto simp: Let_def split: option.splits sum.splits if_splits prod.splits)
qed

text \<open>
  What \<open>readline\<close> returns on a stream whose first line is \<open>l\<close>: that line, leaving the
  other lines to be read, or \<open>ValueError\<close> when the line is over the limit.
\<close>

lemma readline_first:
  assumes "split_lines buf = l # ls"
  shows "l \<noteq> []
         \<and> (lim < length (takeWhile (\<lambda>b. b \<noteq> 10) l) \<longrightarrow>
              (\<exists>rest. readline lim buf = (Inl ValueError, rest)))
         \<and> (\<not> lim < length (takeWhile (\<lambda>b. b \<noteq> 10) l) \<longrightarrow>
              (\<exists>rest. readline lim buf = (Inr l, rest) \<and> split_lines rest = ls))"
proof (cases "length (takeWhile (\<lambda>b. b \<noteq> 10) buf) < length buf")
  case True
  define i where "i = length (takeWhile (\<lambda>b. b \<noteq> 10) buf)"
  from True assms have l: "l = take (i + 1) buf" and ls: "ls = split_lines (drop (i + 1) buf)"
    by (simp_all add: i_def split_lines_def lines_from_sep [where acc = "[]"])
  have len: "length (takeWhile (\<lambda>b. b \<noteq> 10) l) = i"
    unfolding l i_def using takeWhile_take_Suc [of "\<lambda>b. b \<noteq> 10" buf] by simp
  from True l have ne: "l \<noteq> []" by auto
  have over: "readline lim buf = (Inl ValueError, drop (i + 1) buf)" if "lim < i"
    using that True by (simp add: readline_def Let_def i_def [symmetric])
  have within: "readline lim buf = (Inr l, drop (i + 1) buf)" if "\<not> lim < i"
    using that True by (simp add: readline_def Let_def i_def [symmetric] l)
  from ne over within len ls show ?thesis by auto
next
  case False
  with assms have l: "l = buf" and ls: "ls = []" and ne: "buf \<noteq> []"
    by (auto simp: split_lines_def lines_from_nosep [where acc = "[]"] split: if_splits)
  from False have len: "length (takeWhile (\<lambda>b. b \<noteq> 10) buf) = length buf"
    using length_takeWhile_le [of "\<lambda>b. b \<noteq> 10" buf] by simp
  have over: "readline lim buf = (Inl ValueError, [])" if "lim < length buf"
    using that False by (simp add: readline_def Let_def)
  have within: "readline lim buf = (Inr buf, [])" if "\<not> lim < length buf"
    using that False by (simp add: readline_def Let_def)
  from l ls ne len over within show ?thesis by (auto simp: split_lines_def)
qed

lemma stream_lines_nil: "stream_lines lim [] = ([], None)"
  by (simp add: stream_lines.simps [of lim "[]"] readline_def)

text \<open>
  The loop yields the readable lines at the head of the stream, each decoded and
  stripped, and stops at the first line that is not readable with the exception
  that line raises; when there is none it ends normally.
\<close>

lemma stream_lines_spec:
  "split_lines buf = ls \<Longrightarrow>
   list_all2 (\<lambda>l y. \<exists>s. bytes_decode l = Inr s \<and> y = strip s)
      (takeWhile (readable lim) ls) (fst (stream_lines lim buf))
   \<and> snd (stream_lines lim buf)
       = (if list_all (readable lim) ls then None
          else Some (line_error lim (hd (dropWhile (readable lim) ls))))"
proof (induction ls arbitrary: buf)
  case Nil
  then have "buf = []" by (simp add: split_lines_empty)
  then show ?case by (simp add: stream_lines_nil)
next
  case (Cons l ls)
  note first = readline_first [OF Cons.prems, of lim]
  from first have ne: "l \<noteq> []" by blast
  show ?case
  proof (cases "lim < length (takeWhile (\<lambda>b. b \<noteq> 10) l)")
    case True
    with first obtain rest where "readline lim buf = (Inl ValueError, rest)" by blast
    then have "stream_lines lim buf = ([], Some ValueError)"
      by (simp add: stream_lines.simps [of lim buf])
    moreover from True have "\<not> readable lim l" by (simp add: readable_def)
    ultimately show ?thesis using True by (simp add: line_error_def)
  next
    case False
    with first obtain rest where rl: "readline lim buf = (Inr l, rest)"
      and sl: "split_lines rest = ls" by blast
    show ?thesis
    proof (cases "bytes_decode l")
      case (Inl x)
      then have x: "x = UnicodeDecodeError" by (rule bytes_decode_error)
      from rl ne Inl x have "stream_lines lim buf = ([], Some UnicodeDecodeError)"
        by (simp add: stream_lines.simps [of lim buf])
      moreover from Inl have "\<not> readable lim l" by (simp add: readable_def)
      ultimately show ?thesis using False by (simp add: line_error_def)
    next
      case (Inr s)
      from rl ne Inr have unfold: "stream_lines lim buf
            = (strip s # fst (stream_lines lim rest), snd (stream_lines lim rest))"
        by (simp add: stream_lines.simps [of lim buf] split: prod.splits)
      from Inr False have ok: "readable lim l" by (simp add: readable_def)
      from Cons.IH [OF sl] unfold ok Inr show ?thesis by simp
    qed
  qed
qed

lemma stream_logs_no_pipe:
  "process self = None \<or> (\<exists>p. process self = Some p \<and> stdout p = None) \<Longrightarrow>
   stream_logs e self = (([], None), self)"
  by (auto simp: stream_logs_def)

lemma stream_logs_pipe:
  "process self = Some p \<Longrightarrow> stdout p = Some r \<Longrightarrow>
   stream_logs e self = (stream_lines (limit r) (child_output e), self)"
  by (simp add: stream_logs_def)

text \<open>
  C5, as the code has it. Without a handle, or with a handle that has no output
  pipe, \<open>stream_logs\<close> yields nothing and ends at once. Otherwise the supervisor is
  unchanged and the elements yielded are, in stream order, the lines of the child's
  output up to the first line that is not readable, each decoded as UTF-8 and with
  the whitespace at both of its ends removed. The generator ends normally when every
  line is well-formed UTF-8 and within the reader's line limit; otherwise it ends at
  the first line that is not, with \<open>ValueError\<close> for a line over the limit and
  \<open>UnicodeDecodeError\<close> for an ill-formed one. The lines are the child's bytes cut
  after each newline: put together again they are the bytes written.
\<close>

theorem stream_logs_lines:
  "(process self = None \<or> (\<exists>p. process self = Some p \<and> stdout p = None) \<longrightarrow>
      stream_logs e self = (([], None), self))
   \<and> (process self = Some p \<and> stdout p = Some r \<longrightarrow>
        snd (stream_logs e self) = self
        \<and> list_all2 (\<lambda>l y. \<exists>s. bytes_decode l = Inr s \<and> y = strip s)
            (takeWhile (readable (limit r)) (split_lines (child_output e)))
            (fst (fst (stream_logs e self)))
        \<and> snd (fst (stream_logs e self))
            = (if list_all (readable (limit r)) (split_lines (child_output e)) then None
               else Some (line_error (limit r)
                      (hd (dropWhile (readable (limit r)) (split_lines (child_output e)))))))
   \<and> concat (split_lines (child_output e)) = child_output e"
proof -
  have a: "stream_logs e self = (([], None), self)"
    if "process self = None \<or> (\<exists>p. process self = Some p \<and> stdout p = None)"
    using that by (rule stream_logs_no_pipe)
  have b: "snd (stream_logs e self) = self
        \<and> list_all2 (\<lambda>l y. \<exists>s. bytes_decode l = Inr s \<and> y = strip s)
            (takeWhile (readable (limit r)) (split_lines (child_output e)))
            (fst (fst (stream_logs e self)))
        \<and> snd (fst (stream_logs e self))
            = (if list_all (readable (limit r)) (split_lines (child_output e)) then None
               else Some (line_error (limit r)
                      (hd (dropWhile (readable (limit r)) (split_lines (child_output e))))))"
    if h: "process self = Some p \<and> stdout p = Some r"
  proof -
    from h have sl: "stream_logs e self = (stream_lines (limit r) (child_output e), self)"
      by (simp add: stream_logs_pipe)
    from stream_lines_spec [OF refl, of "limit r" "child_output e"] sl show ?thesis
      by simp
  qed
  have c: "concat (split_lines (child_output e)) = child_output e"
    by (simp add: split_lines_def concat_lines_from)
  from a b c show ?thesis by blast
qed

lemma split_lines_AB: "split_lines [65, 10, 66, 10] = [[65, 10], [66, 10]]"
  by (simp add: split_lines_def)

lemma strip_AB: "strip [65, 10] = [65]" "strip [66, 10] = [66]"
  by (simp_all add: strip_def rstrip_def lstrip_def isspace_def)

lemma readable_AB: "readable DEFAULT_LIMIT [65, 10]" "readable DEFAULT_LIMIT [66, 10]"
  by (simp_all add: readable_def lead_def DEFAULT_LIMIT_def)

theorem stream_logs_lines_witness:
  "stream_logs (quiet\<lparr>child_output := [65, 10, 66, 10]\<rparr>) running_sp
     = (([str ''A'', str ''B''], None), running_sp)
   \<and> stream_logs quiet fresh = (([], None), fresh)"
proof -
  let ?e = "quiet\<lparr>child_output := [65, 10, 66, 10]\<rparr>"
  have pipe: "process running_sp = Some handle7 \<and> stdout handle7 = Some (StreamReader DEFAULT_LIMIT)"
    by (simp add: examples)
  from stream_logs_lines [of running_sp ?e handle7 "StreamReader DEFAULT_LIMIT"] pipe
  have unchanged: "snd (stream_logs ?e running_sp) = running_sp"
    and elems: "list_all2 (\<lambda>l y. \<exists>s. bytes_decode l = Inr s \<and> y = strip s)
            [[65, 10], [66, 10]] (fst (fst (stream_logs ?e running_sp)))"
    and ending: "snd (fst (stream_logs ?e running_sp)) = None"
    by (simp_all add: split_lines_AB readable_AB)
  from elems have "fst (fst (stream_logs ?e running_sp)) = [[65], [66]]"
    by (auto simp: list_all2_Cons1 lead_def strip_AB)
  with unchanged ending have one: "stream_logs ?e running_sp = (([str ''A'', str ''B''], None), running_sp)"
    by (simp add: prod_eq_iff str_def)
  have none: "process fresh = None" by (simp add: examples)
  from stream_logs_lines [of fresh quiet handle7 "StreamReader DEFAULT_LIMIT"] none
  have two: "stream_logs quiet fresh = (([], None), fresh)" by simp
  from one two show ?thesis by simp
qed

lemma split_lines_indent: "split_lines [32, 32, 65, 10] = [[32, 32, 65, 10]]"
  by (simp add: split_lines_def)

lemma readable_indent: "readable DEFAULT_LIMIT [32, 32, 65, 10]"
  by (simp add: readable_def lead_def DEFAULT_LIMIT_def)

lemma split_lines_bad: "split_lines [255, 10] = [[255, 10]]"
  by (simp add: split_lines_def)

lemma unreadable_bad: "\<not> readable DEFAULT_LIMIT [255, 10]"
  by (simp add: readable_def lead_def)

lemma line_error_bad: "line_error DEFAULT_LIMIT [255, 10] = UnicodeDecodeError"
  by (simp add: line_error_def DEFAULT_LIMIT_def)

lemma takeWhile_long: "takeWhile (\<lambda>b. b \<noteq> 10) (replicate n 65 @ [10 :: 8 word]) = replicate n 65"
  by (induction n) auto

lemma split_lines_long: "split_lines (replicate n 65 @ [10]) = [replicate n 65 @ [10]]"
proof -
  have "length (takeWhile (\<lambda>b. b \<noteq> 10) (replicate n 65 @ [10 :: 8 word]))
          < length (replicate n 65 @ [10 :: 8 word])"
    by (simp add: takeWhile_long)
  from lines_from_sep [OF this, of "[]"] show ?thesis
    by (simp add: split_lines_def takeWhile_long)
qed

lemma unreadable_long: "\<not> readable DEFAULT_LIMIT (replicate 65537 65 @ [10])"
  by (simp add: readable_def takeWhile_long DEFAULT_LIMIT_def)

lemma line_error_long: "line_error DEFAULT_LIMIT (replicate 65537 65 @ [10]) = ValueError"
  by (simp add: line_error_def takeWhile_long DEFAULT_LIMIT_def)

text \<open>
  C5, as stated, fails in three ways. For a child that writes two spaces, \<open>A\<close> and a
  newline the element yielded is \<open>A\<close>, whereas the line with only its trailing
  whitespace removed is two spaces followed by \<open>A\<close>. For a child that writes the byte
  255 and a newline and closes its output, nothing is yielded and the sequence ends
  with \<open>UnicodeDecodeError\<close>, not normally. For a child that writes a line of 65537
  letters, one more than the reader's limit, nothing is yielded and the sequence
  ends with \<open>ValueError\<close>.
\<close>

theorem stream_logs_counterexample:
  "fst (stream_logs (quiet\<lparr>child_output := [32, 32, 65, 10]\<rparr>) running_sp) = ([str ''A''], None)
   \<and> map (\<lambda>l. map_sum id rstrip (bytes_decode l)) (split_lines [32, 32, 65, 10])
       = [Inr (str ''  A'')]
   \<and> str ''A'' \<noteq> str ''  A''
   \<and> fst (stream_logs (quiet\<lparr>child_output := [255, 10]\<rparr>) running_sp)
       = ([], Some UnicodeDecodeError)
   \<and> fst (stream_logs (quiet\<lparr>child_output := replicate 65537 65 @ [10]\<rparr>) running_sp)
       = ([], Some ValueError)"
proof -
  have pipe: "stream_logs e running_sp = (stream_lines DEFAULT_LIMIT (child_output e), running_sp)"
    for e
    by (simp add: stream_logs_def examples)
  from stream_lines_spec [OF split_lines_indent, of DEFAULT_LIMIT]
  have "stream_lines DEFAULT_LIMIT [32, 32, 65, 10] = ([str ''A''], None)"
    by (auto simp: readable_indent list_all2_Cons1 lead_def strip_def rstrip_def lstrip_def
          isspace_def str_def prod_eq_iff)
  then have a: "fst (stream_logs (quiet\<lparr>child_output := [32, 32, 65, 10]\<rparr>) running_sp)
                  = ([str ''A''], None)"
    by (simp add: pipe)
  have b: "map (\<lambda>l. map_sum id rstrip (bytes_decode l)) (split_lines [32, 32, 65, 10])
             = [Inr (str ''  A'')]"
    by (simp add: split_lines_indent lead_def rstrip_def isspace_def str_def)
  have c: "str ''A'' \<noteq> str ''  A''"
    by (simp add: str_def)
  from stream_lines_spec [OF split_lines_bad, of DEFAULT_LIMIT]
  have "stream_lines DEFAULT_LIMIT [255, 10] = ([], Some UnicodeDecodeError)"
    by (simp add: unreadable_bad line_error_bad prod_eq_iff)
  then have d: "fst (stream_logs (quiet\<lparr>child_output := [255, 10]\<rparr>) running_sp)
                  = ([], Some UnicodeDecodeError)"
    by (simp add: pipe)
  from stream_lines_spec [OF split_lines_long, of DEFAULT_LIMIT 65537]
  have "stream_lines DEFAULT_LIMIT (replicate 65537 65 @ [10]) = ([], Some ValueError)"
    by (simp add: unreadable_long line_error_long prod_eq_iff)
  then have f: "fst (stream_logs (quiet\<lparr>child_output := replicate 65537 65 @ [10]\<rparr>) running_sp)
                  = ([], Some ValueError)"
    by (simp add: pipe)
  from a b c d f show ?thesis by blast
qed

end
